theory Spec2Isabelle
  imports Main "HOL-Library.Char_ord" "HOL-Library.List_Lexorder"
begin

section \<open>Values and exceptions\<close>

text \<open>
  The values the Store and the Actor handle are JSON values. An object is an association
  list in insertion order, the order in which JavaScript enumerates its own string keys;
  a well-formed object has no key twice (\<open>wf_json\<close> below). Numbers are carried
  around and never computed with, so they are integers here. \<open>undefined\<close> is not a
  value of this type: where the source can read it, the model has an \<open>option\<close>.
\<close>

datatype json =
    JNull
  | JBool bool
  | JNum int
  | JStr string
  | JArr "json list"
  | JObj "(string \<times> json) list"

text \<open>
  A rejected promise or a thrown exception is \<open>Inl\<close> of one of these.
  \<open>OutOfModel\<close> marks an assignment whose result a JSON value cannot express (an
  array with a hole or with a named member, a changed prototype): the model says nothing
  there, and no theorem below rests on that outcome.
\<close>

datatype exn =
    TypeError string
  | ReferenceError string
  | Error string
  | OutOfModel

fun wf_json :: "json \<Rightarrow> bool" where
  "wf_json (JObj kvs) = (distinct (map fst kvs) \<and> list_all (\<lambda>kv. wf_json (snd kv)) kvs)"
| "wf_json (JArr xs) = list_all wf_json xs"
| "wf_json _ = True"

text \<open>
  Structural equality of two values whatever the order in which their keys were inserted
  (what \<open>assert.deepStrictEqual\<close> decides on JSON values): the same keys with
  deep-equal members, arrays of the same length with deep-equal elements in order.
\<close>

fun deep_eq :: "json \<Rightarrow> json \<Rightarrow> bool" where
  "deep_eq (JObj xs) (JObj ys) =
     (set (map fst xs) = set (map fst ys) \<and>
      list_all (\<lambda>kv. case map_of ys (fst kv) of None \<Rightarrow> False
                      | Some w \<Rightarrow> deep_eq (snd kv) w) xs)"
| "deep_eq (JArr xs) (JArr ys) = list_all2 deep_eq xs ys"
| "deep_eq a b = (a = b)"

subsection \<open>Decimal strings\<close>

definition digit_chars :: string where
  "digit_chars = ''0123456789''"

definition is_digit :: "char \<Rightarrow> bool" where
  "is_digit c = (c \<in> set digit_chars)"

fun dec_of_nat :: "nat \<Rightarrow> string" where
  "dec_of_nat n =
     (if n < 10 then [digit_chars ! n] else dec_of_nat (n div 10) @ [digit_chars ! (n mod 10)])"

declare dec_of_nat.simps [simp del]

text \<open>The value of a decimal digit is its place in \<open>digit_chars\<close>.\<close>

definition digit_val :: "char \<Rightarrow> nat" where
  "digit_val c = length (takeWhile (\<lambda>d. d \<noteq> c) digit_chars)"

definition nat_of_dec :: "string \<Rightarrow> nat" where
  "nat_of_dec s = foldl (\<lambda>acc c. 10 * acc + digit_val c) 0 s"

text \<open>
  An array index in its canonical spelling: decimal digits, no leading zero, below
  \<open>2^32 - 1\<close>. Only such a member name addresses an element of an array.
\<close>

definition parse_index :: "string \<Rightarrow> nat option" where
  "parse_index s =
     (if s \<noteq> [] \<and> list_all is_digit s \<and> (length s = 1 \<or> hd s \<noteq> CHR ''0'')
         \<and> int (nat_of_dec s) < 4294967295
      then Some (nat_of_dec s) else None)"

subsection \<open>Members of JavaScript values\<close>

text \<open>\<^verbatim>\<open>obj[k] = v\<close> on the own members of an object: an existing key keeps its place.\<close>

fun obj_put :: "(string \<times> json) list \<Rightarrow> string \<Rightarrow> json \<Rightarrow> (string \<times> json) list" where
  "obj_put [] k v = [(k, v)]"
| "obj_put ((k', v') # kvs) k v =
     (if k' = k then (k, v) # kvs else (k', v') # obj_put kvs k v)"

text \<open>
  \<^verbatim>\<open>obj[tok] = v\<close> in strict mode: on an object the member is created or replaced, on
  an array an element is replaced or appended, on null and on a primitive it throws.
\<close>

fun js_assign :: "json \<Rightarrow> string \<Rightarrow> json \<Rightarrow> exn + json" where
  "js_assign (JObj kvs) tok v =
     (if tok = ''__proto__'' then Inl OutOfModel else Inr (JObj (obj_put kvs tok v)))"
| "js_assign (JArr xs) tok v =
     (case parse_index tok of
        Some n \<Rightarrow> if n < length xs then Inr (JArr (xs[n := v]))
                  else if n = length xs then Inr (JArr (xs @ [v]))
                  else Inl OutOfModel
      | None \<Rightarrow> Inl OutOfModel)"
| "js_assign JNull tok v = Inl (TypeError ''Cannot set properties of null'')"
| "js_assign _ tok v = Inl (TypeError ''Cannot create property on a primitive'')"

text \<open>
  The read \<^verbatim>\<open>obj.k\<close> of a member that no prototype provides (\<open>state\<close>,
  \<open>addresses\<close>): \<open>Inr None\<close> is \<open>undefined\<close>; reading a member of null throws.
\<close>

fun js_prop :: "json \<Rightarrow> string \<Rightarrow> exn + json option" where
  "js_prop JNull k = Inl (TypeError ''Cannot read properties of null'')"
| "js_prop (JObj kvs) k = Inr (map_of kvs k)"
| "js_prop _ k = Inr None"

text \<open>The own enumerable members that \<^verbatim>\<open>Object.assign\<close> copies from a source.\<close>

fun own_entries :: "json \<Rightarrow> (string \<times> json) list" where
  "own_entries (JObj kvs) = kvs"
| "own_entries (JArr xs) = zip (map dec_of_nat [0..<length xs]) xs"
| "own_entries (JStr s) = zip (map dec_of_nat [0..<length s]) (map (\<lambda>c. JStr [c]) s)"
| "own_entries _ = []"

definition object_assign :: "(string \<times> json) list \<Rightarrow> json \<Rightarrow> (string \<times> json) list" where
  "object_assign target src = fold (\<lambda>kv t. obj_put t (fst kv) (snd kv)) (own_entries src) target"

text \<open>The values that \<^verbatim>\<open>!v\<close> and \<^verbatim>\<open>v || d\<close> treat as false.\<close>

fun falsy :: "json \<Rightarrow> bool" where
  "falsy JNull = True"
| "falsy (JBool b) = (\<not> b)"
| "falsy (JNum n) = (n = 0)"
| "falsy (JStr s) = (s = [])"
| "falsy _ = False"

text \<open>
  \<^verbatim>\<open>value.constructor.name\<close>. An object is as \<open>JSON.parse\<close> makes it: its
  prototype is \<^verbatim>\<open>Object.prototype\<close>, and a key \<open>constructor\<close> of its own hides the
  inherited one. \<open>js_name\<close> is the read of \<open>name\<close> on what \<open>constructor\<close> holds
  then: it throws on null and is \<open>undefined\<close> (\<open>None\<close>) on a value without that
  member. The read of \<open>constructor\<close> itself throws on null.
\<close>

fun js_name :: "json \<Rightarrow> exn + json option" where
  "js_name JNull = Inl (TypeError ''Cannot read properties of null (reading name)'')"
| "js_name (JObj m) = Inr (map_of m ''name'')"
| "js_name _ = Inr None"

fun constructor_name :: "json \<Rightarrow> exn + json option" where
  "constructor_name JNull = Inl (TypeError ''Cannot read properties of null (reading constructor)'')"
| "constructor_name (JBool b) = Inr (Some (JStr ''Boolean''))"
| "constructor_name (JNum n) = Inr (Some (JStr ''Number''))"
| "constructor_name (JStr s) = Inr (Some (JStr ''String''))"
| "constructor_name (JArr xs) = Inr (Some (JStr ''Array''))"
| "constructor_name (JObj kvs) =
     (case map_of kvs ''constructor'' of
        None \<Rightarrow> Inr (Some (JStr ''Object''))
      | Some c \<Rightarrow> js_name c)"

text \<open>\<^verbatim>\<open>value.length\<close>, where the value is not null.\<close>

fun js_length :: "json \<Rightarrow> json option" where
  "js_length (JStr s) = Some (JNum (int (length s)))"
| "js_length (JArr xs) = Some (JNum (int (length xs)))"
| "js_length (JObj kvs) = map_of kvs ''length''"
| "js_length _ = None"

section \<open>The json-pointer dependency\<close>

text \<open>
  \<^verbatim>\<open>require('json-pointer')\<close> is a package outside the repository. Its function
  \<open>escape\<close> is a function of strings and is written here as the package has it
  (RFC 6901). Its functions \<open>get\<close> and \<open>set\<close> walk and change JavaScript objects;
  they are parameters of the model (below), and no theorem assumes anything of them.
\<close>

definition escape :: "string \<Rightarrow> string" where
  "escape str = concat (map (\<lambda>c. if c = CHR ''~'' then ''~0''
                                 else if c = CHR ''/'' then ''~1'' else [c]) str)"

section \<open>Helpers the sources use and do not define\<close>

text \<open>
  \<open>store.js\<close> and \<open>actor.js\<close> use what neither file defines: the modules
  \<open>Hash256\<close> and \<open>Entity\<close> that they require, the built-ins \<open>JSON.stringify\<close>
  and \<open>Buffer\<close>, \<open>get\<close> and \<open>set\<close> of json-pointer, and the method
  \<open>sha256\<close>, which is called on the Store. These are the parameters of the model,
  collected in one record. An \<open>Entity\<close> is represented by the argument of its
  constructor, which may be \<open>undefined\<close> (\<open>None\<close>). \<open>pointer_set\<close> returns the
  changed tree.

  \<open>sha256 P v = None\<close> says that the call \<^verbatim>\<open>this.sha256(v)\<close> throws. No class of the
  chain Store, Actor, EventEmitter defines a method \<open>sha256\<close>, so on the Store as the
  sources make it every such call throws: \<open>shipped P\<close> is the record of that Store. The
  theorems about a throwing operation hold for every record, that is also for a Store
  that was given a \<open>sha256\<close>.

  \<open>State\<close> is different: \<open>store.js\<close> uses the identifier in \<^verbatim>\<open>new State(...)\<close>
  (lines 197, 262 and 437) and neither requires nor declares it, so the expression throws
  a ReferenceError wherever it is evaluated.
\<close>

record prims =
  sha256 :: "json \<Rightarrow> string option"
  hash256_digest :: "string \<Rightarrow> string"
  buffer_from_hex :: "string \<Rightarrow> string"
  utf8_to_hex :: "string \<Rightarrow> string"
  stringify :: "json \<Rightarrow> string"
  stringify_indented :: "json \<Rightarrow> string"
  entity_id :: "json option \<Rightarrow> string"
  entity_data :: "json option \<Rightarrow> json"
  pointer_get :: "json \<Rightarrow> string \<Rightarrow> exn + json"
  pointer_set :: "json \<Rightarrow> string \<Rightarrow> json \<Rightarrow> exn + json"

definition shipped :: "prims \<Rightarrow> prims" where
  "shipped P = P\<lparr> sha256 := (\<lambda>v. None) \<rparr>"

text \<open>
  Modelled from the spec: \<open>functions/_sortKeys.js\<close> is not among the sources. The
  spec (Data model, Digest Identity; Component design 4.1) says that canonicalization
  sorts mapping keys recursively and that structurally equal input yields identical
  output whatever the insertion order of the keys. Keys are compared as
  \<^verbatim>\<open>Array.prototype.sort\<close> compares strings, code unit by code unit.
\<close>

primrec sortKeys :: "json \<Rightarrow> json" where
  "sortKeys JNull = JNull"
| "sortKeys (JBool b) = JBool b"
| "sortKeys (JNum n) = JNum n"
| "sortKeys (JStr s) = JStr s"
| "sortKeys (JArr xs) = JArr (map sortKeys xs)"
| "sortKeys (JObj kvs) = JObj (sort_key fst (map (map_prod id sortKeys) kvs))"

section \<open>Actor (actor.js)\<close>

text \<open>
  The fields of an Actor: \<open>log\<close> (an array), \<open>signature\<close> (null until set),
  \<open>value\<close>, and of its \<open>_state\<close> the \<open>content\<close>, which the getter \<open>state\<close>
  returns. \<open>emitted\<close> is the trace of the calls of \<open>emit\<close> (event name and
  arguments), oldest first.
\<close>

record actor =
  actor_log :: "string list"
  signature :: "json option"
  actor_value :: json
  content :: json
  emitted :: "(string \<times> json list) list"

definition readObject :: "json \<Rightarrow> json" where
  "readObject input =
     (case input of
        JStr s \<Rightarrow> JObj (object_assign [] (JObj [(''type'', JStr ''String''), (''content'', JStr s)]))
      | _ \<Rightarrow> JObj (object_assign [] input))"

definition new_actor :: "json \<Rightarrow> actor" where
  "new_actor a =
     \<lparr> actor_log = [], signature = None, actor_value = readObject a,
       content = (if falsy (readObject a) then JObj [] else readObject a), emitted = [] \<rparr>"

definition state :: "'a actor_scheme \<Rightarrow> json" where
  "state a = content a"

definition toObject :: "'a actor_scheme \<Rightarrow> json" where
  "toObject a = sortKeys (state a)"

definition preimage :: "prims \<Rightarrow> 'a actor_scheme \<Rightarrow> string" where
  "preimage P a =
     hash256_digest P (stringify_indented P
       (JObj [(''@type'', JStr ''FabricActorState''), (''@data'', toObject a)]))"

definition actor_id :: "prims \<Rightarrow> 'a actor_scheme \<Rightarrow> string" where
  "actor_id P a = hash256_digest P (buffer_from_hex P (preimage P a))"

definition serialize :: "prims \<Rightarrow> 'a actor_scheme \<Rightarrow> string" where
  "serialize P a = stringify_indented P (toObject a)"

definition sign :: "'a actor_scheme \<Rightarrow> (exn + 'a actor_scheme) \<times> 'a actor_scheme" where
  "sign a =
     (Inl (Error ''Unimplemented on this branch.  Use @fabric/core/types/signer instead.''), a)"

section \<open>Store (store.js)\<close>

record route =
  r_path :: string
  r_pointer :: string
  r_index :: string

record data_info =
  i_hash :: "string option"
  i_size :: "json option"
  i_type :: string

text \<open>
  A Store is an Actor with its settings (of which the code reads \<open>verbosity\<close>), the key
  registry \<open>keys\<close>, the record \<^verbatim>\<open>this['@entity']['@data']\<close>, the field
  \<^verbatim>\<open>this['@method']\<close> and the indices of its \<open>_state\<close>. The constructor replaces
  the \<open>_state\<close> of the Actor, so \<open>content\<close> is the content tree of the Store. An index
  is a dictionary from digests to entries.
\<close>

record store = actor +
  verbosity :: int
  keys :: "string \<rightharpoonup> (string \<times> string)"
  at_data :: json
  at_method :: "string option"
  actors :: "string \<rightharpoonup> actor"
  documents :: "string \<rightharpoonup> json"
  metadata :: "string \<rightharpoonup> data_info"
  indices :: "string \<rightharpoonup> string"

text \<open>
  The constructor; \<open>verbosity\<close> is 2 unless the settings give a number (a setting
  of another kind is not modelled).
\<close>

definition new_store :: "json \<Rightarrow> store" where
  "new_store settings =
     \<lparr> actor_log = [], signature = None, actor_value = readObject settings,
       content = JObj [], emitted = [],
       verbosity = (case map_of (own_entries settings) ''verbosity'' of
                      Some (JNum n) \<Rightarrow> n | _ \<Rightarrow> 2),
       keys = Map.empty, at_data = JObj [], at_method = None,
       actors = Map.empty, documents = Map.empty, metadata = Map.empty,
       indices = Map.empty \<rparr>"

text \<open>
  \<^verbatim>\<open>this.log(...)\<close>: \<open>log\<close> is the array the Actor's constructor assigns
  (actor.js, line 35) and the Store defines no method of that name, so the call throws.
\<close>

definition call_log :: "store \<Rightarrow> exn + unit" where
  "call_log s = Inl (TypeError ''this.log is not a function'')"

definition getRouteInfo :: "prims \<Rightarrow> string \<Rightarrow> exn + route" where
  "getRouteInfo P path0 =
     (let path = (if take 1 path0 \<noteq> ''/'' then ''/'' @ path0 else path0);
          id = escape path
      in case sha256 P (JStr id) of
           None \<Rightarrow> Inl (TypeError ''this.sha256 is not a function'')
         | Some router \<Rightarrow> Inr \<lparr> r_path = path, r_pointer = id, r_index = router \<rparr>)"

definition getDataInfo :: "prims \<Rightarrow> json \<Rightarrow> exn + data_info" where
  "getDataInfo P v =
     (case constructor_name v of
        Inl e \<Rightarrow> Inl e
      | Inr name \<Rightarrow>
          if name = Some (JStr ''String'')
          then (case sha256 P v of
                  None \<Rightarrow> Inl (TypeError ''this.sha256 is not a function'')
                | Some h \<Rightarrow> Inr \<lparr> i_hash = Some h, i_size = js_length v,
                                 i_type = ''JSONString'' \<rparr>)
          else Inr \<lparr> i_hash = None, i_size = None, i_type = ''Unhandled'' \<rparr>)"

definition encodeValue :: "prims \<Rightarrow> json \<Rightarrow> exn + string" where
  "encodeValue P v =
     (case constructor_name v of
        Inl e \<Rightarrow> Inl e
      | Inr name \<Rightarrow> Inr (utf8_to_hex P (stringify P v)))"

text \<open>
  \<open>commit\<close> builds the Entity from \<^verbatim>\<open>this.state.state\<close>, the member \<open>state\<close> of the
  content tree, and emits \<open>commit\<close> with the Entity's id and data. It returns the
  Entity, here the argument of its constructor.
\<close>

definition commit :: "prims \<Rightarrow> store \<Rightarrow> (exn + json option) \<times> store" where
  "commit P s =
     (case js_prop (state s) ''state'' of
        Inl e \<Rightarrow> (Inl e, s)
      | Inr entity \<Rightarrow>
          (Inr entity,
           s\<lparr> emitted := emitted s @ [(''commit'', [JStr (entity_id P entity), entity_data P entity])] \<rparr>))"

definition get :: "prims \<Rightarrow> store \<Rightarrow> string \<Rightarrow> exn + json" where
  "get P s key =
     (case getRouteInfo P key of
        Inl e \<Rightarrow> Inl e
      | Inr route \<Rightarrow>
          (case pointer_get P (content s) (r_path route) of
             Inl e \<Rightarrow> Inl e
           | Inr result \<Rightarrow>
               (case metadata s (r_index route) of
                  None \<Rightarrow> Inl (TypeError ''Cannot read properties of undefined (reading type)'')
                | Some info \<Rightarrow> Inr result)))"

text \<open>
  \<open>set\<close>: the four index entries are written before the content tree, and the call of
  \<open>commit\<close> is not awaited, so a rejection of \<open>commit\<close> does not reach the caller.
\<close>

definition set_key :: "prims \<Rightarrow> store \<Rightarrow> string \<Rightarrow> json \<Rightarrow> (exn + json) \<times> store" where
  "set_key P s key v =
     (case getRouteInfo P key of
        Inl e \<Rightarrow> (Inl e, s)
      | Inr route \<Rightarrow>
     (case getDataInfo P v of
        Inl e \<Rightarrow> (Inl e, s)
      | Inr info \<Rightarrow>
     (case encodeValue P v of
        Inl e \<Rightarrow> (Inl e, s)
      | Inr data \<Rightarrow>
     (case sha256 P v of
        None \<Rightarrow> (Inl (TypeError ''this.sha256 is not a function''), s)
      | Some hash \<Rightarrow>
          (let actor = new_actor (JObj [(''type'', JStr ''FabricDocument''),
                                        (''content'', JStr data),
                                        (''encoding'', JStr ''json''),
                                        (''original'', v)]);
               s1 = s\<lparr> actors := (actors s)(actor_id P actor \<mapsto> actor),
                       documents := (documents s)(hash \<mapsto> v),
                       indices := (indices s)(r_index route \<mapsto> r_pointer route),
                       metadata := (metadata s)(r_index route \<mapsto> info) \<rparr>
           in case pointer_set P (content s1) (r_path route) v of
                Inl e \<Rightarrow> (Inl e, s1)
              | Inr tree \<Rightarrow>
                  (let s2 = snd (commit P (s1\<lparr> content := tree \<rparr>))
                   in (get P s2 key, s2)))))))"

text \<open>
  \<open>_GET\<close> catches what \<open>get\<close> throws and returns null instead. At verbosity 5 it
  first calls \<^verbatim>\<open>this.log\<close>, and in the handler \<^verbatim>\<open>this.warn\<close>, which the Store
  does not define either.
\<close>

definition GET :: "prims \<Rightarrow> store \<Rightarrow> string \<Rightarrow> exn + json" where
  "GET P s key =
     (case (if verbosity s \<ge> 5 then call_log s else Inr ()) of
        Inl e \<Rightarrow> Inl e
      | Inr u \<Rightarrow>
          (case get P s key of
             Inr result \<Rightarrow> Inr result
           | Inl E \<Rightarrow> if verbosity s \<ge> 5 then Inl (TypeError ''this.warn is not a function'')
                      else Inr JNull))"

definition SET :: "prims \<Rightarrow> store \<Rightarrow> string \<Rightarrow> json \<Rightarrow> (exn + json) \<times> store" where
  "SET P s key v = set_key P s key v"

definition PUT :: "prims \<Rightarrow> store \<Rightarrow> string \<Rightarrow> json \<Rightarrow> (exn + json) \<times> store" where
  "PUT P s key v = set_key P s key v"

definition DELETE :: "prims \<Rightarrow> store \<Rightarrow> string \<Rightarrow> (exn + json) \<times> store" where
  "DELETE P s key =
     (case PUT P s key JNull of
        (Inl e, s1) \<Rightarrow> (Inl e, s1)
      | (Inr r, s1) \<Rightarrow> (Inr JNull, s1))"

text \<open>
  \<open>_PATCH\<close>: the first statement is the call \<^verbatim>\<open>this.log(...)\<close>. What follows it is
  the merge \<^verbatim>\<open>Object.assign(root, current || {}, patch)\<close> and the write, whose
  failure is caught and logged.
\<close>

definition PATCH :: "prims \<Rightarrow> store \<Rightarrow> string \<Rightarrow> json \<Rightarrow> (exn + json) \<times> store" where
  "PATCH P s key patch =
     (case call_log s of
        Inl e \<Rightarrow> (Inl e, s)
      | Inr u \<Rightarrow>
          (case GET P s key of
             Inl e \<Rightarrow> (Inl e, s)
           | Inr current \<Rightarrow>
               (let result = JObj (object_assign
                                     (object_assign [] (if falsy current then JObj [] else current))
                                     patch)
                in (Inr result, snd (PUT P s key result)))))"

text \<open>
  The statements of \<open>_POST\<close> under its comment \<^verbatim>\<open>// preamble\<close> (lines 178 to 195),
  which run before the first \<open>await\<close> and outside every \<open>try\<close>: an exception there
  rejects the promise that \<open>_POST\<close> returns.
\<close>

definition POST_preamble :: "prims \<Rightarrow> store \<Rightarrow> string \<Rightarrow> json \<Rightarrow> (exn + string) \<times> store" where
  "POST_preamble P s key v =
     (let s1 = s\<lparr> at_method := Some ''_POST'' \<rparr>;
          path = escape key
      in case sha256 P (JStr path) of
           None \<Rightarrow> (Inl (TypeError ''this.sha256 is not a function''), s1)
         | Some router \<Rightarrow>
             (let address = ''/collections/'' @ router;
                  s2 = (if keys s1 address = None
                        then s1\<lparr> keys := (keys s1)(address \<mapsto> (key, address)) \<rparr> else s1)
              in case js_prop (at_data s2) ''addresses'' of
                   Inl e \<Rightarrow> (Inl e, s2)
                 | Inr None \<Rightarrow> (Inl (TypeError ''Cannot set properties of undefined''), s2)
                 | Inr (Some addresses) \<Rightarrow>
                     (case js_assign addresses router (JStr address) of
                        Inl e \<Rightarrow> (Inl e, s2)
                      | Inr addresses' \<Rightarrow>
                          (case js_assign (at_data s2) ''addresses'' addresses' of
                             Inl e \<Rightarrow> (Inl e, s2)
                           | Inr d \<Rightarrow> (Inr address, s2\<lparr> at_data := d \<rparr>)))))"

text \<open>
  \<open>_REGISTER\<close>: after the read of \<^verbatim>\<open>/entities/{actor.id}\<close> the next statement is
  \<^verbatim>\<open>store.log(...)\<close>, and the function declares no \<open>store\<close> (nor the \<open>vector\<close> and
  \<open>result\<close> of the statements after it).
\<close>

definition REGISTER :: "prims \<Rightarrow> store \<Rightarrow> json \<Rightarrow> (exn + json) \<times> store" where
  "REGISTER P s obj =
     (let actor = new_actor obj
      in case GET P s (''/entities/'' @ actor_id P actor) of
           Inl e \<Rightarrow> (Inl e, s)
         | Inr existing \<Rightarrow> (Inl (ReferenceError ''store is not defined''), s))"

text \<open>
  \<open>_PUSH\<close> reads the stack list through \<open>_GET\<close> and then evaluates
  \<^verbatim>\<open>new State(data)\<close> (line 262). The statements after it (the Stack, \<open>_REGISTER\<close>,
  the writes of the blob and of the list, \<open>commit\<close> and the read back) are never
  reached.
\<close>

definition PUSH :: "prims \<Rightarrow> store \<Rightarrow> string \<Rightarrow> json \<Rightarrow> (exn + json) \<times> store" where
  "PUSH P s key data =
     (let id = escape key;
          path = ''/stacks/'' @ id
      in case GET P s path of
           Inl e \<Rightarrow> (Inl e, s)
         | Inr found \<Rightarrow>
             (let list = (if falsy found then JArr [] else found)
              in (Inl (ReferenceError ''State is not defined''), s)))"

text \<open>
  \<open>trust\<close> computes the source-scoped path once, from the id of the Store at that
  moment, and registers a listener for the \<open>put\<close> events of the source; \<open>on_put\<close>
  is that listener. At verbosity 5 its log line reads \<^verbatim>\<open>value.constructor.name\<close>.
  Then it calls \<^verbatim>\<open>store.sha256(id)\<close> (line 436) and evaluates
  \<^verbatim>\<open>new State(value)\<close> (line 437); the six writes into
  \<^verbatim>\<open>store['@entity']['@data']\<close> and the \<^verbatim>\<open>source/events\<close> event come after
  that and are never reached.
\<close>

definition trust_name :: "prims \<Rightarrow> store \<Rightarrow> string" where
  "trust_name P s = ''/sources/'' @ actor_id P s"

definition on_put :: "prims \<Rightarrow> string \<Rightarrow> store \<Rightarrow> string \<Rightarrow> json \<Rightarrow> (exn + unit) \<times> store" where
  "on_put P name s key v =
     (case (if verbosity s \<ge> 5 then constructor_name v else Inr None) of
        Inl e \<Rightarrow> (Inl e, s)
      | Inr logged \<Rightarrow>
          (let id = escape key
           in case sha256 P (JStr id) of
                None \<Rightarrow> (Inl (TypeError ''store.sha256 is not a function''), s)
              | Some router \<Rightarrow> (Inl (ReferenceError ''State is not defined''), s)))"

section \<open>A concrete instance of the helpers\<close>

text \<open>
  One way to fill the helper record, used to run the model on concrete inputs: in place
  of SHA-256 a digest that copies its input without the characters a pointer reserves
  and, like \<^verbatim>\<open>crypto\<close>, accepts strings only; a compact printer in place of
  \<open>JSON.stringify\<close>; in place of json-pointer a flat dictionary from whole pointers to
  values.
\<close>

definition toy_digest :: "string \<Rightarrow> string" where
  "toy_digest s = ''d'' @ map (\<lambda>c. if c = CHR ''/'' \<or> c = CHR ''~'' then CHR ''_'' else c) s"

primrec toy_stringify :: "json \<Rightarrow> string" where
  "toy_stringify JNull = ''null''"
| "toy_stringify (JBool b) = (if b then ''true'' else ''false'')"
| "toy_stringify (JNum n) = (if n < 0 then ''-'' else []) @ dec_of_nat (nat (abs n))"
| "toy_stringify (JStr s) = ''<'' @ s @ ''>''"
| "toy_stringify (JArr xs) = ''['' @ concat (map (\<lambda>t. t @ '','') (map toy_stringify xs)) @ '']''"
| "toy_stringify (JObj kvs) =
     ''{'' @ concat (map (\<lambda>kt. ''<'' @ fst kt @ ''>:'' @ snd kt @ '','')
                       (map (map_prod id toy_stringify) kvs)) @ ''}''"

definition toy_pointer_get :: "json \<Rightarrow> string \<Rightarrow> exn + json" where
  "toy_pointer_get obj p =
     (case obj of
        JObj kvs \<Rightarrow> (case map_of kvs p of
                       None \<Rightarrow> Inl (Error (''Invalid reference token: '' @ p))
                     | Some v \<Rightarrow> Inr v)
      | _ \<Rightarrow> Inl (Error (''Invalid reference token: '' @ p)))"

definition toy_pointer_set :: "json \<Rightarrow> string \<Rightarrow> json \<Rightarrow> exn + json" where
  "toy_pointer_set obj p v =
     (case obj of
        JObj kvs \<Rightarrow> Inr (JObj (obj_put kvs p v))
      | _ \<Rightarrow> Inl (TypeError ''Cannot create property''))"

definition toy_prims :: prims where
  "toy_prims =
     \<lparr> sha256 = (\<lambda>v. case v of JStr s \<Rightarrow> Some (toy_digest s) | _ \<Rightarrow> None),
       hash256_digest = toy_digest,
       buffer_from_hex = (\<lambda>s. s),
       utf8_to_hex = (\<lambda>s. s),
       stringify = toy_stringify,
       stringify_indented = toy_stringify,
       entity_id = (\<lambda>a. toy_digest (case a of None \<Rightarrow> ''{}'' | Some w \<Rightarrow> toy_stringify (sortKeys w))),
       entity_data = (\<lambda>a. case a of None \<Rightarrow> JObj [] | Some w \<Rightarrow> w),
       pointer_get = toy_pointer_get,
       pointer_set = toy_pointer_set \<rparr>"

section \<open>Signing\<close>

text \<open>
  C10. For every Actor, and so for every Store, \<open>sign\<close> throws and leaves the Actor as
  it was, its signature included; a new Actor and a new Store have no signature.
\<close>

theorem sign_always_throws:
  fixes a :: "'a actor_scheme" and s :: store
  shows "fst (sign a) = Inl (Error ''Unimplemented on this branch.  Use @fabric/core/types/signer instead.'')
    \<and> snd (sign a) = a
    \<and> signature (snd (sign a)) = signature a
    \<and> (\<exists>e. fst (sign s) = Inl e) \<and> signature (snd (sign s)) = signature s
    \<and> signature (new_actor v) = None
    \<and> signature (new_store settings) = None"
  by (simp add: sign_def new_actor_def new_store_def)

section \<open>Reads\<close>

lemma get_throws_without_route: "getRouteInfo P path = Inl e \<Longrightarrow> get P s path = Inl e"
  by (simp add: get_def)

text \<open>
  C3. Where the metadata index has no record under the route digest of the path,
  \<open>get\<close> throws: the pointer read fails on a missing path, and the read of
  \<^verbatim>\<open>metadata[route.index].type\<close> fails otherwise.
\<close>

theorem get_without_metadata_throws:
  assumes "getRouteInfo P path = Inr route"
    and "metadata s (r_index route) = None"
  shows "\<exists>e. get P s path = Inl e"
  using assms by (simp add: get_def split: sum.splits)

theorem get_without_metadata_throws_witness:
  "getRouteInfo toy_prims ''/missing'' =
      Inr \<lparr> r_path = ''/missing'', r_pointer = ''~1missing'', r_index = ''d_1missing'' \<rparr>
   \<and> metadata (new_store (JObj [])) ''d_1missing'' = None
   \<and> (\<exists>e. get toy_prims (new_store (JObj [])) ''/missing'' = Inl e)"
proof -
  let ?route = "\<lparr> r_path = ''/missing'', r_pointer = ''~1missing'', r_index = ''d_1missing'' \<rparr>"
  have r: "getRouteInfo toy_prims ''/missing'' = Inr ?route"
    by code_simp
  have m: "metadata (new_store (JObj [])) (r_index ?route) = None"
    by (simp add: new_store_def)
  from get_without_metadata_throws [OF r m] r m show ?thesis by simp
qed

text \<open>The wrapper \<open>_GET\<close> is the path that turns the failure of \<open>get\<close> into null.\<close>

lemma GET_never_throws_quietly:
  "verbosity s < 5 \<Longrightarrow> \<exists>v. GET P s key = Inr v"
  by (simp add: GET_def split: sum.splits)

lemma GET_null_when_get_throws:
  "verbosity s < 5 \<Longrightarrow> get P s key = Inl e \<Longrightarrow> GET P s key = Inr JNull"
  by (simp add: GET_def)

lemma GET_keeps_found: "verbosity s < 5 \<Longrightarrow> get P s key = Inr v \<Longrightarrow> GET P s key = Inr v"
  by (simp add: GET_def)

section \<open>Writes that throw\<close>

lemma getDataInfo_null: "\<exists>e. getDataInfo P JNull = Inl e"
  by (simp add: getDataInfo_def)

lemma set_key_null: "\<exists>e. set_key P s key JNull = (Inl e, s)"
  by (simp add: set_key_def getDataInfo_def split: sum.splits)

text \<open>
  C9. \<open>_DELETE\<close> writes null through \<open>_PUT\<close>, and \<open>set\<close> reads
  \<^verbatim>\<open>value.constructor\<close> of null in \<open>getDataInfo\<close>: the call throws and the Store is
  as it was before, so the value at the path is not cleared.
\<close>

theorem DELETE_throws_and_changes_nothing:
  "\<exists>e. DELETE P s key = (Inl e, s)"
proof -
  obtain e where "set_key P s key JNull = (Inl e, s)"
    using set_key_null by blast
  then show ?thesis by (simp add: DELETE_def PUT_def)
qed

text \<open>
  C4. \<open>_PATCH\<close> throws at its first statement, for every path and partial record, and
  leaves the Store as it was: nothing is read, merged or written.
\<close>

theorem PATCH_throws:
  "PATCH P s key patch = (Inl (TypeError ''this.log is not a function''), s)"
  by (simp add: PATCH_def call_log_def)

text \<open>
  C5. On a Store whose record \<^verbatim>\<open>this['@entity']['@data']\<close> has no member
  \<open>addresses\<close>, as the constructor leaves it, \<open>_POST\<close> throws in its preamble, after
  it has set \<^verbatim>\<open>this['@method']\<close>: it returns neither an identity nor false.
\<close>

theorem POST_throws_in_preamble:
  assumes "js_prop (at_data s) ''addresses'' = Inr None"
  shows "\<exists>e s'. POST_preamble P s key v = (Inl e, s') \<and> at_method s' = Some ''_POST''"
  using assms by (simp add: POST_preamble_def Let_def split: option.splits)

theorem POST_throws_in_preamble_witness:
  "js_prop (at_data (new_store (JObj []))) ''addresses'' = Inr None
   \<and> (\<exists>e s'. POST_preamble toy_prims (new_store (JObj [])) ''/items'' (JObj [(''a'', JNum 1)]) = (Inl e, s')
          \<and> at_method s' = Some ''_POST'')"
proof -
  have h: "js_prop (at_data (new_store (JObj []))) ''addresses'' = Inr None"
    by (simp add: new_store_def)
  from POST_throws_in_preamble [OF h] h show ?thesis by blast
qed

lemma REGISTER_throws: "\<exists>e. REGISTER P s obj = (Inl e, s)"
  by (simp add: REGISTER_def Let_def split: sum.splits)

text \<open>
  C6. \<open>_PUSH\<close> throws for every path and value, at \<^verbatim>\<open>new State(data)\<close> at the
  latest, and leaves the Store as it was: no blob is written and no payload is returned.
\<close>

theorem PUSH_throws_and_changes_nothing:
  "\<exists>e. PUSH P s key data = (Inl e, s)"
  by (cases "GET P s (''/stacks/'' @ escape key)") (simp_all add: PUSH_def)

section \<open>Commit\<close>

lemma commit_twice_same_entity:
  "content s \<noteq> JNull \<Longrightarrow>
   \<exists>e. fst (commit P s) = Inr e \<and> fst (commit P (snd (commit P s))) = Inr e
     \<and> (snd (commit P s))\<lparr> emitted := emitted s \<rparr> = s"
proof -
  assume "content s \<noteq> JNull"
  then obtain e where "js_prop (content s) ''state'' = Inr e"
    by (cases "content s") simp_all
  then show ?thesis by (simp add: commit_def state_def)
qed



section \<open>The Store as the sources make it\<close>

lemma getRouteInfo_shipped:
  "getRouteInfo (shipped P) path = Inl (TypeError ''this.sha256 is not a function'')"
  by (simp add: getRouteInfo_def shipped_def Let_def)

text \<open>
  C1. On the Store as the sources make it, \<open>set\<close> throws for every path and value
  before it writes anything, and so does the \<open>get\<close> after it: the value is never
  read back.
\<close>

theorem set_then_get_rejects:
  "set_key (shipped P) s path v = (Inl (TypeError ''this.sha256 is not a function''), s)
   \<and> get (shipped P) (snd (set_key (shipped P) s path v)) path =
       Inl (TypeError ''this.sha256 is not a function'')"
  by (simp add: set_key_def get_def getRouteInfo_shipped)

section \<open>Mirroring a trusted source\<close>

text \<open>
  C8. The listener that \<open>trust\<close> registers throws on every \<open>put\<close> event, for every
  key and value and whatever \<open>sha256\<close> is, and leaves the Store as it was: nothing is
  recorded under \<^verbatim>\<open>this['@entity']['@data']\<close> and no event is emitted.
\<close>

theorem on_put_throws_and_mirrors_nothing:
  "\<exists>e. on_put P name s key v = (Inl e, s)"
  by (simp add: on_put_def Let_def split: sum.splits option.splits)

section \<open>Content identity\<close>

lemma sort_key_fst_unique:
  fixes xs ys :: "(string \<times> 'a) list"
  assumes "distinct (map fst xs)" and "distinct (map fst ys)" and "set xs = set ys"
  shows "sort_key fst xs = sort_key fst ys"
proof (rule map_sorted_distinct_set_unique [where f = fst])
  have inj: "inj_on fst (set xs)" and dx: "distinct xs" and dy: "distinct ys"
    using assms(1,2) by (auto simp: distinct_map)
  show "inj_on fst (set (sort_key fst xs) \<union> set (sort_key fst ys))"
    using inj assms(3) by simp
  show "sorted (map fst (sort_key fst xs))" "sorted (map fst (sort_key fst ys))"
    by (rule sorted_sort_key)+
  show "distinct (map fst (sort_key fst xs))"
    using inj dx by (simp add: distinct_map)
  show "distinct (map fst (sort_key fst ys))"
    using inj dy assms(3) by (simp add: distinct_map)
  show "set (sort_key fst xs) = set (sort_key fst ys)"
    using assms(3) by simp
qed

lemma sortKeys_canonical:
  "wf_json a \<Longrightarrow> wf_json b \<Longrightarrow> deep_eq a b \<Longrightarrow> sortKeys a = sortKeys b"
proof (induction a arbitrary: b)
  case (JArr xs)
  show ?case
  proof (cases b)
    case (JArr ys)
    with JArr.prems have l: "list_all2 deep_eq xs ys" and wx: "list_all wf_json xs"
      and wy: "list_all wf_json ys" by simp_all
    have "map sortKeys xs = map sortKeys ys"
    proof (rule nth_equalityI)
      show "length (map sortKeys xs) = length (map sortKeys ys)"
        using l by (simp add: list_all2_lengthD)
    next
      fix i assume "i < length (map sortKeys xs)"
      then have i: "i < length xs" by simp
      then have j: "i < length ys" using l by (simp add: list_all2_lengthD)
      have "deep_eq (xs ! i) (ys ! i)" using l i by (simp add: list_all2_nthD)
      moreover have "xs ! i \<in> set xs" using i by simp
      moreover have "wf_json (xs ! i)" using wx i by (simp add: list_all_length)
      moreover have "wf_json (ys ! i)" using wy j by (simp add: list_all_length)
      ultimately have "sortKeys (xs ! i) = sortKeys (ys ! i)" by (rule_tac JArr.IH)
      then show "map sortKeys xs ! i = map sortKeys ys ! i" using i j by simp
    qed
    then show ?thesis using JArr by simp
  qed (use JArr.prems in simp_all)
next
  case (JObj xs)
  show ?case
  proof (cases b)
    case b: (JObj ys)
    let ?f = "map_prod id sortKeys :: string \<times> json \<Rightarrow> string \<times> json"
    from JObj.prems b have keys: "set (map fst xs) = set (map fst ys)"
      and la: "list_all (\<lambda>kv. case map_of ys (fst kv) of None \<Rightarrow> False
                              | Some w \<Rightarrow> deep_eq (snd kv) w) xs"
      and dx: "distinct (map fst xs)" and dy: "distinct (map fst ys)"
      and lx: "list_all (\<lambda>kv. wf_json (snd kv)) xs"
      and ly: "list_all (\<lambda>kv. wf_json (snd kv)) ys"
      by simp_all
    have mem: "\<exists>w. map_of ys k = Some w \<and> deep_eq v w" if "(k, v) \<in> set xs" for k v
      using la that by (fastforce simp: list_all_iff split: option.splits)
    have wx: "wf_json v" if "(k, v) \<in> set xs" for k v
      using lx that by (fastforce simp: list_all_iff)
    have wy: "wf_json w" if "(k, w) \<in> set ys" for k w
      using ly that by (fastforce simp: list_all_iff)
    have same: "sortKeys v = sortKeys w" if "(k, v) \<in> set xs" and "(k, w) \<in> set ys" for k v w
    proof -
      from mem [OF that(1)] obtain w' where w': "map_of ys k = Some w'" and d: "deep_eq v w'"
        by blast
      have "map_of ys k = Some w" using dy that(2) by simp
      with w' have "w' = w" by simp
      with d have "deep_eq v w" by simp
      moreover have "v \<in> Basic_BNFs.snds (k, v)" by simp
      ultimately show ?thesis
        using JObj.IH [OF that(1), of v w] wx [OF that(1)] wy [OF that(2)] by simp
    qed
    have "set (map ?f xs) = set (map ?f ys)"
    proof (intro equalityI subsetI)
      fix p assume "p \<in> set (map ?f xs)"
      then obtain k v where kv: "(k, v) \<in> set xs" and p: "p = (k, sortKeys v)" by auto
      from mem [OF kv] obtain w where "map_of ys k = Some w" by blast
      then have w: "(k, w) \<in> set ys" by (rule map_of_SomeD)
      with same [OF kv w] p show "p \<in> set (map ?f ys)" by force
    next
      fix p assume "p \<in> set (map ?f ys)"
      then obtain k w where kw: "(k, w) \<in> set ys" and p: "p = (k, sortKeys w)" by auto
      then have "k \<in> set (map fst xs)" using keys by force
      then obtain v where kv: "(k, v) \<in> set xs" by auto
      with same [OF kv kw] p show "p \<in> set (map ?f xs)" by force
    qed
    moreover have "distinct (map fst (map ?f xs))" "distinct (map fst (map ?f ys))"
      using dx dy by (simp_all add: comp_def)
    ultimately have "sort_key fst (map ?f xs) = sort_key fst (map ?f ys)"
      by (intro sort_key_fst_unique)
    then show ?thesis using b by simp
  qed (use JObj.prems in simp_all)
qed simp_all

lemma obj_put_fresh: "k \<notin> fst ` set t \<Longrightarrow> obj_put t k v = t @ [(k, v)]"
  by (induction t) auto

lemma fold_obj_put_distinct:
  "distinct (map fst (pre @ es)) \<Longrightarrow>
   fold (\<lambda>kv t. obj_put t (fst kv) (snd kv)) es pre = pre @ es"
proof (induction es arbitrary: pre)
  case Nil
  then show ?case by simp
next
  case (Cons e es)
  then have "fst e \<notin> fst ` set pre" by auto
  then have "obj_put pre (fst e) (snd e) = pre @ [e]" by (simp add: obj_put_fresh)
  moreover have "distinct (map fst ((pre @ [e]) @ es))" using Cons.prems by simp
  ultimately show ?case using Cons.IH [of "pre @ [e]"] by simp
qed

lemma object_assign_copy: "distinct (map fst kvs) \<Longrightarrow> object_assign [] (JObj kvs) = kvs"
  using fold_obj_put_distinct [of "[]" kvs] by (simp add: object_assign_def)

lemma map_obj_put:
  "map (map_prod id f) (obj_put t k v) = obj_put (map (map_prod id f) t) k (f v)"
  by (induction t) auto

lemma map_fold_obj_put:
  "map (map_prod id f) (fold (\<lambda>kv t. obj_put t (fst kv) (snd kv)) es t) =
   fold (\<lambda>kv t. obj_put t (fst kv) (snd kv)) (map (map_prod id f) es) (map (map_prod id f) t)"
  by (induction es arbitrary: t) (simp_all add: map_obj_put)

lemma sortKeys_readObject_arr:
  assumes "map sortKeys xs = map sortKeys ys"
  shows "sortKeys (readObject (JArr xs)) = sortKeys (readObject (JArr ys))"
proof -
  have len: "length xs = length ys"
    using arg_cong [OF assms, of length] by simp
  have z: "map (map_prod id sortKeys) (zip ks zs) = zip ks (map sortKeys zs)" for ks :: "string list" and zs
    by (simp add: zip_map2 map_prod_def)
  have "map (map_prod id sortKeys) (object_assign [] (JArr xs)) =
        map (map_prod id sortKeys) (object_assign [] (JArr ys))"
    unfolding object_assign_def map_fold_obj_put own_entries.simps z len assms ..
  then show ?thesis
    by (simp add: readObject_def)
qed

lemma readObject_falsy: "\<not> falsy (readObject a)"
  by (simp add: readObject_def split: json.splits)

lemma toObject_new_actor: "toObject (new_actor a) = sortKeys (readObject a)"
  by (simp add: toObject_def state_def new_actor_def readObject_falsy)

lemma toObject_deep_eq:
  assumes "wf_json v1" and "wf_json v2" and "deep_eq v1 v2"
  shows "toObject (new_actor v1) = toObject (new_actor v2)"
proof (cases "v1 = v2")
  case True
  then show ?thesis by simp
next
  case False
  have canon: "sortKeys v1 = sortKeys v2"
    using assms by (rule sortKeys_canonical)
  show ?thesis
  proof (cases v1)
    case (JObj xs)
    with assms(3) False obtain ys where v2: "v2 = JObj ys" by (cases v2) simp_all
    have "readObject v1 = v1" "readObject v2 = v2"
      using assms(1,2) JObj v2 by (simp_all add: readObject_def object_assign_copy)
    with canon show ?thesis by (simp add: toObject_new_actor)
  next
    case (JArr xs)
    with assms(3) False obtain ys where v2: "v2 = JArr ys" by (cases v2) simp_all
    from canon JArr v2 have "map sortKeys xs = map sortKeys ys" by simp
    then have "sortKeys (readObject (JArr xs)) = sortKeys (readObject (JArr ys))"
      by (rule sortKeys_readObject_arr)
    then show ?thesis using JArr v2 by (simp add: toObject_new_actor)
  qed (use assms(3) False in simp_all)
qed

text \<open>
  C2. Two well-formed values that are deep-equal, whatever the order of their keys, have
  the same canonical form, and the Actors made from them have the same serialized state,
  the same preimage and the same id.
\<close>

theorem canonical_identity:
  assumes "wf_json v1" and "wf_json v2" and "deep_eq v1 v2"
  shows "sortKeys v1 = sortKeys v2
    \<and> serialize P (new_actor v1) = serialize P (new_actor v2)
    \<and> preimage P (new_actor v1) = preimage P (new_actor v2)
    \<and> actor_id P (new_actor v1) = actor_id P (new_actor v2)"
  using sortKeys_canonical [OF assms] toObject_deep_eq [OF assms]
  by (simp add: serialize_def preimage_def actor_id_def)

theorem canonical_identity_witness:
  "wf_json (JObj [(''a'', JStr ''1''), (''b'', JObj [(''y'', JNull), (''x'', JArr [JBool True])])])
   \<and> wf_json (JObj [(''b'', JObj [(''x'', JArr [JBool True]), (''y'', JNull)]), (''a'', JStr ''1'')])
   \<and> deep_eq (JObj [(''a'', JStr ''1''), (''b'', JObj [(''y'', JNull), (''x'', JArr [JBool True])])])
              (JObj [(''b'', JObj [(''x'', JArr [JBool True]), (''y'', JNull)]), (''a'', JStr ''1'')])
   \<and> actor_id toy_prims
         (new_actor (JObj [(''a'', JStr ''1''), (''b'', JObj [(''y'', JNull), (''x'', JArr [JBool True])])])) =
       actor_id toy_prims
         (new_actor (JObj [(''b'', JObj [(''x'', JArr [JBool True]), (''y'', JNull)]), (''a'', JStr ''1'')]))"
proof -
  let ?v1 = "JObj [(''a'', JStr ''1''), (''b'', JObj [(''y'', JNull), (''x'', JArr [JBool True])])]"
  let ?v2 = "JObj [(''b'', JObj [(''x'', JArr [JBool True]), (''y'', JNull)]), (''a'', JStr ''1'')]"
  have h1: "wf_json ?v1" by code_simp
  have h2: "wf_json ?v2" by code_simp
  have h3: "deep_eq ?v1 ?v2" by code_simp
  from canonical_identity [OF h1 h2 h3, of toy_prims] h1 h2 h3 show ?thesis by simp
qed

end
